theory Spec2Isabelle
  imports Main "HOL-Library.Sublist"
begin

section \<open>Python primitives used by the search code\<close>

text \<open>
  Python strings are modelled as \<open>string\<close>, one \<open>char\<close> per code point, which covers
  the code points below 256. \<open>str.lower\<close> maps the upper-case letters of that range
  (A-Z, and U+00C0 to U+00DE except the multiplication sign U+00D7) to the letter 32
  places further on and leaves every other character alone.
\<close>

definition lower_char :: "char \<Rightarrow> char" where
  "lower_char c =
     (let n = (of_char c :: nat)
      in if (65 \<le> n \<and> n \<le> 90) \<or> (192 \<le> n \<and> n \<le> 222 \<and> n \<noteq> 215)
         then char_of (n + 32) else c)"

definition lower :: "string \<Rightarrow> string" where
  "lower s = map lower_char s"

text \<open>\<open>sub in s\<close> on strings: \<open>sub\<close> occurs in \<open>s\<close> as a contiguous block.\<close>

fun py_in :: "string \<Rightarrow> string \<Rightarrow> bool" where
  "py_in sub [] = (sub = [])"
| "py_in sub (c # cs) = (prefix sub (c # cs) \<or> py_in sub cs)"

text \<open>
  \<open>s.count(sub)\<close>: the number of non-overlapping occurrences, scanning from the left and
  resuming after each occurrence; the empty string occurs \<open>len(s) + 1\<close> times.
\<close>

function count_from :: "string \<Rightarrow> string \<Rightarrow> nat" where
  "count_from sub [] = 0"
| "count_from sub (c # cs) =
     (if sub \<noteq> [] \<and> prefix sub (c # cs)
      then 1 + count_from sub (drop (length sub) (c # cs))
      else count_from sub cs)"
  by pat_completeness auto
termination
  by (relation "measure (\<lambda>(sub, s). length s)") (auto simp: neq_Nil_conv)

definition py_count :: "string \<Rightarrow> string \<Rightarrow> nat" where
  "py_count s sub = (if sub = [] then length s + 1 else count_from sub s)"

text \<open>
  \<open>int(x * 0.9)\<close>, \<open>int(x * 1.1)\<close> and \<open>int(x * 0.5)\<close> for an integer \<open>x\<close>:
  \<open>int\<close> truncates towards zero. The doubles nearest to 0.9 and 1.1 lie just above the
  decimal values, so the floating-point product never falls short of an exact multiple of
  one tenth, and the truncation is that of the exact product \<open>x * k / 10\<close>.
\<close>

definition int_times_tenths :: "int \<Rightarrow> int \<Rightarrow> int" where
  "int_times_tenths x k =
     (if 0 \<le> x then (x * k) div 10 else - (((- x) * k) div 10))"

text \<open>\<open>xs[:n]\<close>: a negative bound counts from the end of the list.\<close>

definition py_slice_to :: "int \<Rightarrow> 'a list \<Rightarrow> 'a list" where
  "py_slice_to n xs =
     (if 0 \<le> n then take (nat n) xs else take (nat (int (length xs) + n)) xs)"

text \<open>
  \<open>s.strip()\<close> removes the white space at both ends: in the range of \<open>char\<close> the
  characters 9 to 13, 28 to 32, U+0085 and U+00A0.
\<close>

definition py_space :: "char \<Rightarrow> bool" where
  "py_space c =
     (let n = (of_char c :: nat)
      in (9 \<le> n \<and> n \<le> 13) \<or> (28 \<le> n \<and> n \<le> 32) \<or> n = 133 \<or> n = 160)"

definition py_strip :: "string \<Rightarrow> string" where
  "py_strip s = rev (dropWhile py_space (rev (dropWhile py_space s)))"

section \<open>Data model\<close>

text \<open>
  \<open>Snippet\<close> of \<open>fredo/core/models.py\<close>. The two timestamps are points in time, counted
  in microseconds; their ISO texts, which the database stores and orders, compare as the
  points in time do.
\<close>

record Snippet =
  snippet_id :: string
  name :: string
  content :: string
  language :: string
  tags :: "string list"
  execution_mode :: string
  gist_id :: "string option"
  gist_url :: "string option"
  created_at :: nat
  updated_at :: nat

text \<open>
  \<open>validate_tags\<close>: \<open>[tag.strip().lower() for tag in v if tag.strip()]\<close>.
\<close>

definition validate_tags :: "string list \<Rightarrow> string list" where
  "validate_tags v = map (\<lambda>tag. lower (py_strip tag)) (filter (\<lambda>tag. py_strip tag \<noteq> []) v)"

record SearchResult =
  snippet :: Snippet
  score :: int

text \<open>
  The two scorers of the \<open>thefuzz\<close> library that the search code calls are parameters
  of the model.
\<close>

record fuzz =
  ratio :: "string \<Rightarrow> string \<Rightarrow> int"
  partial_ratio :: "string \<Rightarrow> string \<Rightarrow> int"

text \<open>
  The outcome of a call is a sum. \<open>search\<close> has no \<open>raise\<close> of its own, and the
  code defines no \<open>InvalidArgument\<close>; the constructor is there so that what \<open>search\<close>
  returns can be told apart from such a report. \<open>OperationalError\<close> is what
  \<open>sqlite3\<close> raises while \<open>Database.search\<close> runs its statement;
  \<open>get_connection\<close> rolls back and raises it again, and \<open>search\<close> does not catch it.
\<close>

datatype error = InvalidArgument string | OperationalError string

section \<open>The store: \<open>Database.search\<close>\<close>

text \<open>
  \<open>json.dumps\<close> on a list of strings, as \<open>to_db_dict\<close> writes the \<open>tags\<close> column:
  the items in double quotes, separated by a comma and a space, in brackets. Inside an
  item the quote and the backslash are escaped with a backslash, the control characters
  with a short escape have it, and every other character outside the printable ASCII
  range becomes \<open>\uXXXX\<close> with four lower-case hexadecimal digits.
\<close>

definition hex_digit :: "nat \<Rightarrow> char" where
  "hex_digit n = ''0123456789abcdef'' ! (n mod 16)"

definition json_escape_char :: "char \<Rightarrow> string" where
  "json_escape_char c =
     (let n = (of_char c :: nat)
      in if c = CHR 0x22 then [CHR 0x5C, CHR 0x22]
         else if c = CHR 0x5C then [CHR 0x5C, CHR 0x5C]
         else if n = 8 then [CHR 0x5C, CHR ''b'']
         else if n = 9 then [CHR 0x5C, CHR ''t'']
         else if n = 10 then [CHR 0x5C, CHR ''n'']
         else if n = 12 then [CHR 0x5C, CHR ''f'']
         else if n = 13 then [CHR 0x5C, CHR ''r'']
         else if n < 32 \<or> 126 < n
           then [CHR 0x5C, CHR ''u'', CHR ''0'', CHR ''0'', hex_digit (n div 16), hex_digit n]
         else [c])"

definition json_string :: "string \<Rightarrow> string" where
  "json_string s = [CHR 0x22] @ concat (map json_escape_char s) @ [CHR 0x22]"

fun join :: "string \<Rightarrow> string list \<Rightarrow> string" where
  "join sep [] = []"
| "join sep [x] = x"
| "join sep (x # y # ys) = x @ sep @ join sep (y # ys)"

definition json_dumps :: "string list \<Rightarrow> string" where
  "json_dumps xs = ''['' @ join '', '' (map json_string xs) @ '']''"

text \<open>
  SQLite's \<open>LIKE\<close> with its defaults: \<open>%\<close> in the pattern stands for any run of
  characters, \<open>_\<close> for any one character, and every other character for itself, the
  ASCII letters without regard to case. There is no escape character. Pattern and text
  both end at their first NUL character.
\<close>

definition like_fold :: "char \<Rightarrow> char" where
  "like_fold c =
     (let n = (of_char c :: nat) in if 65 \<le> n \<and> n \<le> 90 then char_of (n + 32) else c)"

fun like :: "string \<Rightarrow> string \<Rightarrow> bool" where
  "like [] [] = True"
| "like [] (c # cs) = False"
| "like (p # ps) [] = (p = CHR ''%'' \<and> like ps [])"
| "like (p # ps) (c # cs) =
     (if p = CHR ''%'' then like ps (c # cs) \<or> like (p # ps) cs
      else if p = CHR ''_'' then like ps cs
      else like_fold p = like_fold c \<and> like ps cs)"

definition until_nul :: "string \<Rightarrow> string" where
  "until_nul s = takeWhile (\<lambda>c. c \<noteq> CHR 0x00) s"

definition sql_like :: "string \<Rightarrow> string \<Rightarrow> bool" where
  "sql_like pattern txt = like (until_nul pattern) (until_nul txt)"

text \<open>
  The table \<open>snippets\<close> is the list of its rows, each the snippet that \<open>create\<close> or
  \<open>update\<close> wrote; \<open>from_db_dict\<close> reads a row back as that snippet. An optional
  argument of \<open>Database.search\<close> filters only when it is neither \<open>None\<close> nor empty
  (\<open>if query:\<close>, \<open>if language:\<close>, \<open>if tags:\<close>).
\<close>

type_synonym Database = "Snippet list"

text \<open>
  Whether \<open>sqlite3\<close> raises while the statement of \<open>Database.search\<close> is prepared
  and run, and with which message, is a parameter of the model: it depends on the limits
  the library was built with (the depth of the \<open>OR\<close> chain of tag conditions, the length
  of a \<open>LIKE\<close> pattern), on the table and on the file system. The parameter sees the
  table and the three arguments of the call.
\<close>

type_synonym engine =
  "Database \<Rightarrow> string option \<Rightarrow> string option \<Rightarrow> string list option \<Rightarrow> string option"

text \<open>
  One \<open>tags LIKE ?\<close> condition, with the parameter \<open>'%"tag"%'\<close>, on the column that
  holds the JSON text of the row's tags.
\<close>

definition tag_condition :: "string \<Rightarrow> Snippet \<Rightarrow> bool" where
  "tag_condition tag row =
     sql_like (''%'' @ [CHR 0x22] @ tag @ [CHR 0x22] @ ''%'') (json_dumps (tags row))"

definition where_clause ::
  "string option \<Rightarrow> string option \<Rightarrow> string list option \<Rightarrow> Snippet \<Rightarrow> bool" where
  "where_clause query lang tgs row =
     ((case query of
         None \<Rightarrow> True
       | Some q \<Rightarrow>
           if q \<noteq> []
           then sql_like (''%'' @ q @ ''%'') (name row)
              \<or> sql_like (''%'' @ q @ ''%'') (content row)
           else True)
      \<and> (case lang of
            None \<Rightarrow> True
          | Some l \<Rightarrow> if l \<noteq> [] then language row = l else True)
      \<and> (case tgs of
            None \<Rightarrow> True
          | Some ts \<Rightarrow> if ts \<noteq> [] then list_ex (\<lambda>tag. tag_condition tag row) ts else True))"

text \<open>
  \<open>Database.search\<close>: an error of the engine is the outcome of the call; otherwise the
  rows that satisfy the \<open>WHERE\<close> clause, \<open>ORDER BY updated_at DESC\<close> as a stable sort
  (rows with equal time keep their order in the table).
\<close>

definition db_search ::
  "engine \<Rightarrow> Database \<Rightarrow> string option \<Rightarrow> string option \<Rightarrow> string list option
     \<Rightarrow> error + Snippet list" where
  "db_search E db query lang tgs =
     (case E db query lang tgs of
        Some msg \<Rightarrow> Inl (OperationalError msg)
      | None \<Rightarrow>
          Inr (sort_key (\<lambda>row. - int (updated_at row))
                 (filter (where_clause query lang tgs) db)))"

section \<open>The scoring function: \<open>SearchEngine._calculate_score\<close>\<close>

definition name_score :: "fuzz \<Rightarrow> string \<Rightarrow> Snippet \<Rightarrow> int" where
  "name_score F query snip = ratio F (lower query) (lower (name snip))"

text \<open>The loop over the tags, with \<open>tag_score\<close> as the accumulator.\<close>

fun tag_loop :: "fuzz \<Rightarrow> string \<Rightarrow> string list \<Rightarrow> int \<Rightarrow> int" where
  "tag_loop F query_lower [] tag_score = tag_score"
| "tag_loop F query_lower (tag # rest) tag_score =
     (if py_in query_lower (lower tag) then tag_loop F query_lower rest (tag_score + 70)
      else if ratio F query_lower (lower tag) > 80
        then tag_loop F query_lower rest (tag_score + 50)
      else tag_loop F query_lower rest tag_score)"

definition tag_score :: "fuzz \<Rightarrow> string \<Rightarrow> Snippet \<Rightarrow> int" where
  "tag_score F query snip = tag_loop F (lower query) (tags snip) 0"

definition content_score :: "fuzz \<Rightarrow> string \<Rightarrow> Snippet \<Rightarrow> int" where
  "content_score F query snip =
     (let query_lower = lower query; content_lower = lower (content snip)
      in if py_in query_lower content_lower
         then min 50 (20 + int (py_count content_lower query_lower) * 5)
         else int_times_tenths (partial_ratio F query_lower (take 500 content_lower)) 5)"

definition calculate_score :: "fuzz \<Rightarrow> string \<Rightarrow> Snippet \<Rightarrow> int" where
  "calculate_score F query snip =
     (let query_lower = lower query; name_lower = lower (name snip)
      in if query_lower = name_lower then 100
         else if py_in query_lower name_lower then 95
         else
           let total_score =
                 max (int_times_tenths (name_score F query snip) 9)
                   (max (tag_score F query snip) (content_score F query snip));
               match_types =
                 (of_bool (name_score F query snip > 60) :: nat)
                 + of_bool (tag_score F query snip > 0)
                 + of_bool (content_score F query snip > 0)
           in if match_types > 1 then min 100 (int_times_tenths total_score 11)
              else total_score)"

section \<open>The ranking engine: \<open>SearchEngine.search\<close>\<close>

text \<open>\<open>if limit: results = results[:limit]\<close>; a limit of zero is false, like \<open>None\<close>.\<close>

definition apply_limit :: "int option \<Rightarrow> 'a list \<Rightarrow> 'a list" where
  "apply_limit limit results =
     (case limit of
        None \<Rightarrow> results
      | Some n \<Rightarrow> if n \<noteq> 0 then py_slice_to n results else results)"

text \<open>The loop that scores the candidates and keeps those with a positive score.\<close>

fun score_loop :: "fuzz \<Rightarrow> string \<Rightarrow> Snippet list \<Rightarrow> SearchResult list" where
  "score_loop F query [] = []"
| "score_loop F query (s # rest) =
     (if calculate_score F query s > 0
      then \<lparr>snippet = s, score = calculate_score F query s\<rparr> # score_loop F query rest
      else score_loop F query rest)"

text \<open>
  \<open>results.sort(key=lambda r: r.score, reverse=True)\<close>: Python's sort is stable, also
  with \<open>reverse=True\<close>, so results with equal score keep their order.
\<close>

definition sort_by_score :: "SearchResult list \<Rightarrow> SearchResult list" where
  "sort_by_score results = sort_key (\<lambda>r. - score r) results"

definition search ::
  "engine \<Rightarrow> Database \<Rightarrow> fuzz \<Rightarrow> string option \<Rightarrow> string option \<Rightarrow> string list option
     \<Rightarrow> int option \<Rightarrow> error + SearchResult list" where
  "search E db F query lang tgs limit =
     (case db_search E db None lang tgs of
        Inl e \<Rightarrow> Inl e
      | Inr snippets \<Rightarrow>
          (let no_query = map (\<lambda>s. \<lparr>snippet = s, score = 100\<rparr>) snippets
           in case query of
                None \<Rightarrow> Inr (apply_limit limit no_query)
              | Some q \<Rightarrow>
                  if q = [] then Inr (apply_limit limit no_query)
                  else Inr (apply_limit limit (sort_by_score (score_loop F q snippets)))))"

section \<open>Reference instances of the parameters, and sample snippets\<close>

text \<open>
  For evaluating the search code on concrete inputs: \<open>fuzz.ratio\<close> as the library
  documents it, twice the length of a longest common subsequence over the sum of the two
  lengths, as a percentage rounded to the nearest integer (100 for two empty strings); and
  \<open>fuzz.partial_ratio\<close> as the best \<open>ratio\<close> of the shorter string against a window of
  the longer one: a block of the shorter string's length, or a shorter block at the start
  or at the end. On two strings without a common character both are 0. The library
  computes the percentage in floating point, so where it lies half-way between two
  integers the library's value can fall on either side; the rounding here is exact, and
  no such input is used below.
\<close>

fun lcs_length :: "string \<Rightarrow> string \<Rightarrow> nat" where
  "lcs_length [] ys = 0"
| "lcs_length (x # xs) [] = 0"
| "lcs_length (x # xs) (y # ys) =
     (if x = y then Suc (lcs_length xs ys)
      else max (lcs_length (x # xs) ys) (lcs_length xs (y # ys)))"

definition round_half_even :: "nat \<Rightarrow> nat \<Rightarrow> nat" where
  "round_half_even p q =
     (let d = p div q; r = p mod q
      in if 2 * r < q then d else if q < 2 * r then d + 1 else if even d then d else d + 1)"

definition indel_ratio :: "string \<Rightarrow> string \<Rightarrow> int" where
  "indel_ratio a b =
     (if a = [] \<and> b = [] then 100
      else int (round_half_even (200 * lcs_length a b) (length a + length b)))"

fun blocks_from :: "nat \<Rightarrow> string \<Rightarrow> string list" where
  "blocks_from n [] = []"
| "blocks_from n (c # cs) = take n (c # cs) # blocks_from n cs"

definition windows :: "nat \<Rightarrow> string \<Rightarrow> string list" where
  "windows n s = map (\<lambda>k. take k s) [1..<n] @ blocks_from n s"

fun best_ratio :: "string \<Rightarrow> string list \<Rightarrow> int" where
  "best_ratio s [] = 0"
| "best_ratio s (w # ws) = max (indel_ratio s w) (best_ratio s ws)"

definition indel_partial_ratio :: "string \<Rightarrow> string \<Rightarrow> int" where
  "indel_partial_ratio a b =
     (if length a \<le> length b then best_ratio a (windows (length a) b)
      else best_ratio b (windows (length b) a))"

definition indel_fuzz :: fuzz where
  "indel_fuzz = \<lparr>ratio = indel_ratio, partial_ratio = indel_partial_ratio\<rparr>"

text \<open>
  An engine within its limits: it raises nothing. The statements of the samples below
  have at most two tag conditions and patterns of a few characters.
\<close>

definition within_limits :: engine where
  "within_limits db query lang tgs = None"

text \<open>
  \<open>Snippet(name=..., content=..., tags=...)\<close> for a name of 1 to 255 characters and a
  non-empty content (the model class refuses others), with the defaults of the class for
  the other fields and the tags as \<open>validate_tags\<close> leaves them; the last argument is
  the time of the last update.
\<close>

definition new_snippet :: "string \<Rightarrow> string \<Rightarrow> string list \<Rightarrow> nat \<Rightarrow> Snippet" where
  "new_snippet n c ts t =
     \<lparr>snippet_id = n, name = n, content = c, language = ''auto'', tags = validate_tags ts,
      execution_mode = ''current'', gist_id = None, gist_url = None,
      created_at = t, updated_at = t\<rparr>"

definition sample_docker :: Snippet where
  "sample_docker = new_snippet ''docker'' ''docker run hello-world'' [] 3"

definition sample_compose :: Snippet where
  "sample_compose = new_snippet ''docker-compose'' ''docker-compose up'' [] 2"

definition sample_list :: Snippet where
  "sample_list = new_snippet ''list'' ''ls'' [''docker'', ''docker-compose''] 1"

definition sample_docgen :: Snippet where
  "sample_docgen = new_snippet ''doc-gen'' ''docker build'' [] 4"

definition sample_cleanup :: Snippet where
  "sample_cleanup =
     new_snippet ''docker-cleanup'' ''docker system prune -af'' [''docker'', ''cleanup''] 2"

definition sample_fetch :: Snippet where
  "sample_fetch = new_snippet ''js-fetch'' ''fetch(url)'' [''javascript'', ''api''] 1"

text \<open>A tag with double quotes in it: \<open>say "hi"\<close>.\<close>

definition quoted_tag :: string where
  "quoted_tag = ''say '' @ [CHR 0x22] @ ''hi'' @ [CHR 0x22]"

definition sample_quoted :: Snippet where
  "sample_quoted = new_snippet ''greet'' ''echo hi'' [quoted_tag] 1"

section \<open>Predicates of the statements\<close>

text \<open>
  A character that \<open>json.dumps\<close> writes as it is: printable ASCII other than the double
  quote and the backslash.
\<close>

definition plain_char :: "char \<Rightarrow> bool" where
  "plain_char c =
     (32 \<le> (of_char c :: nat) \<and> (of_char c :: nat) \<le> 126
      \<and> c \<noteq> CHR 0x22 \<and> c \<noteq> CHR 0x5C)"

text \<open>
  The scoring function with the boost step read as "count how many of
  nameFuzzy > 60, tagScore > 0, contentScore > 0 are true", where nameFuzzy is the ratio
  weighted by 0.9 and floored. Everything else is as in \<open>calculate_score\<close>.
\<close>

definition score_counting_weighted_name :: "fuzz \<Rightarrow> string \<Rightarrow> Snippet \<Rightarrow> int" where
  "score_counting_weighted_name F query snip =
     (let query_lower = lower query; name_lower = lower (name snip)
      in if query_lower = name_lower then 100
         else if py_in query_lower name_lower then 95
         else
           let name_fuzzy = int_times_tenths (name_score F query snip) 9;
               total_score =
                 max name_fuzzy (max (tag_score F query snip) (content_score F query snip));
               match_types =
                 (of_bool (name_fuzzy > 60) :: nat)
                 + of_bool (tag_score F query snip > 0)
                 + of_bool (content_score F query snip > 0)
           in if match_types > 1 then min 100 (int_times_tenths total_score 11)
              else total_score)"

section \<open>Facts about the Python primitives\<close>

lemma lower_Nil_iff: "lower q = [] \<longleftrightarrow> q = []"
  by (simp add: lower_def)

lemma count_from_pos: "sub \<noteq> [] \<Longrightarrow> py_in sub s \<Longrightarrow> 1 \<le> count_from sub s"
proof (induction sub s rule: count_from.induct)
  case (1 sub)
  then show ?case by simp
next
  case (2 sub c cs)
  show ?case
  proof (cases "prefix sub (c # cs)")
    case True
    with "2.prems" show ?thesis by simp
  next
    case False
    with "2.prems" have "py_in sub cs" by simp
    with "2.IH"(2) "2.prems" False show ?thesis by simp
  qed
qed

lemma py_count_pos: "sub \<noteq> [] \<Longrightarrow> py_in sub s \<Longrightarrow> 1 \<le> py_count s sub"
  using count_from_pos [of sub s] by (simp add: py_count_def)

lemma int_times_tenths_nonneg: "0 \<le> x \<Longrightarrow> int_times_tenths x k = x * k div 10"
  by (simp add: int_times_tenths_def)

lemma py_slice_to_negative:
  "n < 0 \<Longrightarrow> py_slice_to n xs = take (length xs - nat (- n)) xs"
proof -
  assume "n < 0"
  then have "nat (int (length xs) + n) = length xs - nat (- n)" by arith
  with \<open>n < 0\<close> show ?thesis by (simp add: py_slice_to_def)
qed

section \<open>Facts about the scoring function and the ranking loop\<close>

lemma content_score_substring:
  assumes "lower query \<noteq> []" and "py_in (lower query) (lower (content snip))"
  shows "25 \<le> content_score F query snip"
proof -
  have "1 \<le> py_count (lower (content snip)) (lower query)"
    using assms by (rule py_count_pos)
  then have "25 \<le> 20 + int (py_count (lower (content snip)) (lower query)) * 5"
    by simp
  with assms(2) show ?thesis
    by (simp add: content_score_def)
qed

lemma boost_keeps_25: "25 \<le> t \<Longrightarrow> 25 \<le> min 100 (int_times_tenths t 11)"
  by (simp add: int_times_tenths_def)

lemma score_loop_eq:
  "score_loop F q xs =
     map (\<lambda>s. \<lparr>snippet = s, score = calculate_score F q s\<rparr>)
       (filter (\<lambda>s. 0 < calculate_score F q s) xs)"
  by (induction xs) simp_all

lemma set_sort_by_score: "set (sort_by_score rs) = set rs"
  by (simp add: sort_by_score_def)

lemma db_search_no_filter:
  "db_search within_limits db None None None =
     Inr (sort_key (\<lambda>row. - int (updated_at row)) db)"
  by (simp add: db_search_def within_limits_def where_clause_def)

lemma search_store_error:
  "db_search E db None lang tgs = Inl e \<Longrightarrow> search E db F query lang tgs limit = Inl e"
  by (simp add: search_def)

lemma tag_loop_bounds:
  "acc \<le> tag_loop F q ts acc \<and> tag_loop F q ts acc \<le> acc + 70 * int (length ts)"
proof (induction ts arbitrary: acc)
  case Nil
  show ?case by simp
next
  case (Cons t ts)
  from Cons [of "acc + 70"] Cons [of "acc + 50"] Cons [of acc]
  show ?case by (auto simp: algebra_simps)
qed

lemma content_score_bounds:
  assumes "0 \<le> partial_ratio F (lower query) (take 500 (lower (content snip)))"
    and "partial_ratio F (lower query) (take 500 (lower (content snip))) \<le> 100"
  shows "0 \<le> content_score F query snip \<and> content_score F query snip \<le> 50"
  using assms by (auto simp: content_score_def Let_def int_times_tenths_def)

lemma calculate_score_bounds:
  assumes "0 \<le> ratio F (lower query) (lower (name snip))"
    and "ratio F (lower query) (lower (name snip)) \<le> 100"
    and "0 \<le> partial_ratio F (lower query) (take 500 (lower (content snip)))"
    and "partial_ratio F (lower query) (take 500 (lower (content snip))) \<le> 100"
  shows "0 \<le> calculate_score F query snip
     \<and> calculate_score F query snip \<le> max 100 (70 * int (length (tags snip)))"
proof -
  have n: "0 \<le> int_times_tenths (name_score F query snip) 9
      \<and> int_times_tenths (name_score F query snip) 9 \<le> 90"
    using assms(1,2) by (auto simp: name_score_def int_times_tenths_def)
  have t: "0 \<le> tag_score F query snip
      \<and> tag_score F query snip \<le> 70 * int (length (tags snip))"
    using tag_loop_bounds [of 0 F "lower query" "tags snip"] by (simp add: tag_score_def)
  have c: "0 \<le> content_score F query snip \<and> content_score F query snip \<le> 50"
    using assms(3,4) by (rule content_score_bounds)
  let ?total = "max (int_times_tenths (name_score F query snip) 9)
                  (max (tag_score F query snip) (content_score F query snip))"
  from n t c have tot: "0 \<le> ?total \<and> ?total \<le> max 100 (70 * int (length (tags snip)))"
    by auto
  then have "0 \<le> ?total * 11" by simp
  then have "0 \<le> ?total * 11 div 10" by (simp only: pos_imp_zdiv_nonneg_iff)
  with tot have b: "0 \<le> min 100 (int_times_tenths ?total 11)"
    by (simp add: int_times_tenths_nonneg)
  have b2: "min 100 (int_times_tenths ?total 11) \<le> max 100 (70 * int (length (tags snip)))"
    by (simp add: min_le_iff_disj le_max_iff_disj)
  have "calculate_score F query snip = 100 \<or> calculate_score F query snip = 95
      \<or> calculate_score F query snip = ?total
      \<or> calculate_score F query snip = min 100 (int_times_tenths ?total 11)"
    by (simp add: calculate_score_def Let_def)
  then show ?thesis
  proof (elim disjE)
    assume "calculate_score F query snip = 100"
    then show ?thesis by simp
  next
    assume "calculate_score F query snip = 95"
    then show ?thesis by simp
  next
    assume "calculate_score F query snip = ?total"
    with tot show ?thesis by simp
  next
    assume "calculate_score F query snip = min 100 (int_times_tenths ?total 11)"
    with b b2 show ?thesis by simp
  qed
qed

lemma sort_by_score_descending:
  "sorted_wrt (\<lambda>a b. score b \<le> score a) (sort_by_score rs)"
proof -
  have "sorted (map (\<lambda>r. - score r) (sort_by_score rs))"
    by (simp add: sort_by_score_def)
  then show ?thesis
    by (simp add: sorted_map sorted_wrt_iff_nth_less)
qed

lemma sort_by_score_stable:
  "filter (\<lambda>r. score r = k) (sort_by_score rs) = filter (\<lambda>r. score r = k) rs"
proof -
  have "filter (\<lambda>r. - score r = - k) (sort_key (\<lambda>r. - score r) rs)
      = filter (\<lambda>r. - score r = - k) rs"
    by (rule sort_key_stable)
  then show ?thesis by (simp add: sort_by_score_def)
qed

lemma apply_limit_none: "apply_limit None xs = xs"
  by (simp add: apply_limit_def)

lemma apply_limit_positive: "0 < n \<Longrightarrow> apply_limit (Some n) xs = take (nat n) xs"
  by (simp add: apply_limit_def py_slice_to_def)

lemma search_no_query:
  assumes "db_search E db None lang tgs = Inr cands"
  shows "search E db F None lang tgs limit =
           Inr (apply_limit limit (map (\<lambda>s. \<lparr>snippet = s, score = 100\<rparr>) cands))"
    and "search E db F (Some []) lang tgs limit =
           Inr (apply_limit limit (map (\<lambda>s. \<lparr>snippet = s, score = 100\<rparr>) cands))"
  using assms by (simp_all add: search_def)

lemma ranked_search:
  assumes "db_search E db None lang tgs = Inr cands" and "query \<noteq> []"
  shows "\<exists>ranked.
      search E db F (Some query) lang tgs limit = Inr (apply_limit limit ranked)
      \<and> sorted_wrt (\<lambda>a b. score b \<le> score a) ranked
      \<and> (\<forall>k. filter (\<lambda>r. score r = k) ranked =
            map (\<lambda>s. \<lparr>snippet = s, score = calculate_score F query s\<rparr>)
              (filter (\<lambda>s. 0 < calculate_score F query s \<and> calculate_score F query s = k)
                cands))"
proof -
  let ?scored = "map (\<lambda>s. \<lparr>snippet = s, score = calculate_score F query s\<rparr>)
                   (filter (\<lambda>s. 0 < calculate_score F query s) cands)"
  have st: "filter (\<lambda>r. score r = k) (sort_by_score ?scored) =
      map (\<lambda>s. \<lparr>snippet = s, score = calculate_score F query s\<rparr>)
        (filter (\<lambda>s. 0 < calculate_score F query s \<and> calculate_score F query s = k) cands)"
    for k
    by (simp add: sort_by_score_stable filter_map comp_def conj_commute)
  have se: "search E db F (Some query) lang tgs limit =
      Inr (apply_limit limit (sort_by_score ?scored))"
    using assms by (simp add: search_def score_loop_eq)
  from st se sort_by_score_descending [of ?scored] show ?thesis by blast
qed

section \<open>Facts about \<open>LIKE\<close> and the JSON text of the tags\<close>

lemma like_percent_skip: "like q t \<Longrightarrow> like (CHR ''%'' # q) t"
  by (cases t) simp_all

lemma like_percent_prefix: "like q t \<Longrightarrow> like (CHR ''%'' # q) (pre @ t)"
  by (induction pre) (simp_all add: like_percent_skip)

lemma like_percent_any: "like ''%'' t"
  by (induction t) simp_all

lemma like_literal: "like rest t \<Longrightarrow> like (p @ rest) (p @ t)"
proof (induction p)
  case Nil
  then show ?case by simp
next
  case (Cons c ps)
  then have "like (ps @ rest) (ps @ t)" by simp
  then show ?case by (simp add: like_percent_skip)
qed

lemma like_contains: "like (''%'' @ p @ ''%'') (pre @ p @ post)"
proof -
  have "like (p @ ''%'') (p @ post)"
    by (rule like_literal) (rule like_percent_any)
  then show ?thesis
    using like_percent_prefix [of "p @ ''%''" "p @ post" pre] by simp
qed

lemma join_contains: "x \<in> set xs \<Longrightarrow> \<exists>pre post. join sep xs = pre @ x @ post"
proof (induction sep xs rule: join.induct)
  case (1 sep)
  then show ?case by simp
next
  case (2 sep y)
  then have "join sep [y] = [] @ x @ []" by simp
  then show ?case by blast
next
  case (3 sep y z zs)
  show ?case
  proof (cases "x = y")
    case True
    then have "join sep (y # z # zs) = [] @ x @ (sep @ join sep (z # zs))" by simp
    then show ?thesis by blast
  next
    case False
    with "3.prems" have "x \<in> set (z # zs)" by simp
    with "3.IH" obtain pre post where "join sep (z # zs) = pre @ x @ post" by blast
    then have "join sep (y # z # zs) = (y @ sep @ pre) @ x @ post" by simp
    then show ?thesis by blast
  qed
qed

lemma json_dumps_contains:
  assumes "tag \<in> set tgs"
  shows "\<exists>pre post. json_dumps tgs = pre @ json_string tag @ post"
proof -
  from assms have "json_string tag \<in> set (map json_string tgs)" by simp
  then obtain pre post where "join '', '' (map json_string tgs) = pre @ json_string tag @ post"
    using join_contains by blast
  then have "json_dumps tgs = (''['' @ pre) @ json_string tag @ (post @ '']'')"
    by (simp add: json_dumps_def)
  then show ?thesis by blast
qed

lemma json_escape_plain: "plain_char c \<Longrightarrow> json_escape_char c = [c]"
  by (auto simp: plain_char_def json_escape_char_def Let_def)

lemma json_string_plain:
  "list_all plain_char s \<Longrightarrow> json_string s = [CHR 0x22] @ s @ [CHR 0x22]"
  by (induction s) (simp_all add: json_string_def json_escape_plain)

lemma until_nul_id: "CHR 0x00 \<notin> set s \<Longrightarrow> until_nul s = s"
  by (auto simp: until_nul_def takeWhile_eq_all_conv)

lemma hex_digit_not_nul: "hex_digit n \<noteq> CHR 0x00"
proof -
  have "hex_digit n \<in> set ''0123456789abcdef''"
    unfolding hex_digit_def by (rule nth_mem) simp
  then show ?thesis by auto
qed

lemma json_escape_char_no_nul: "CHR 0x00 \<notin> set (json_escape_char c)"
proof -
  have "c \<noteq> CHR 0x00" if "\<not> (of_char c :: nat) < 32"
    using that by auto
  then show ?thesis
    by (auto simp: json_escape_char_def Let_def hex_digit_not_nul hex_digit_not_nul [symmetric])
qed

lemma json_string_no_nul: "CHR 0x00 \<notin> set (json_string s)"
  by (induction s) (auto simp: json_string_def json_escape_char_no_nul)

lemma join_no_nul:
  "CHR 0x00 \<notin> set sep \<Longrightarrow> \<forall>x \<in> set xs. CHR 0x00 \<notin> set x \<Longrightarrow> CHR 0x00 \<notin> set (join sep xs)"
  by (induction sep xs rule: join.induct) auto

lemma json_dumps_no_nul: "CHR 0x00 \<notin> set (json_dumps tgs)"
proof -
  have "CHR 0x00 \<notin> set (join '', '' (map json_string tgs))"
    by (rule join_no_nul) (auto simp: json_string_no_nul)
  then show ?thesis by (simp add: json_dumps_def)
qed

lemma plain_char_not_nul: "plain_char c \<Longrightarrow> c \<noteq> CHR 0x00"
  by (auto simp: plain_char_def)

lemma tag_condition_plain:
  assumes "tag \<in> set (tags row)" and "list_all plain_char tag"
  shows "tag_condition tag row"
proof -
  obtain pre post where "json_dumps (tags row) = pre @ json_string tag @ post"
    using json_dumps_contains [OF assms(1)] by blast
  with assms(2) have j: "json_dumps (tags row) = pre @ ([CHR 0x22] @ tag @ [CHR 0x22]) @ post"
    by (simp add: json_string_plain)
  from assms(2) have "CHR 0x00 \<notin> set tag"
    using plain_char_not_nul by (auto simp: list_all_iff)
  then have p: "until_nul (''%'' @ [CHR 0x22] @ tag @ [CHR 0x22] @ ''%'')
      = ''%'' @ [CHR 0x22] @ tag @ [CHR 0x22] @ ''%''"
    by (intro until_nul_id) simp
  have x: "until_nul (json_dumps (tags row)) = json_dumps (tags row)"
    by (rule until_nul_id) (rule json_dumps_no_nul)
  have "like (''%'' @ ([CHR 0x22] @ tag @ [CHR 0x22]) @ ''%'')
          (pre @ ([CHR 0x22] @ tag @ [CHR 0x22]) @ post)"
    by (rule like_contains)
  then have "like (''%'' @ [CHR 0x22] @ tag @ [CHR 0x22] @ ''%'') (json_dumps (tags row))"
    by (simp add: j)
  then show ?thesis
    by (simp only: tag_condition_def sql_like_def p x)
qed

lemma tag_filter_keeps_row_with_common_tag:
  assumes "tag \<in> set ts" and "tag \<in> set (tags row)" and "list_all plain_char tag"
    and "row \<in> set db" and "where_clause query lang None row"
    and "db_search E db query lang (Some ts) = Inr rows"
  shows "row \<in> set rows"
proof -
  have "tag_condition tag row" using assms(2,3) by (rule tag_condition_plain)
  with assms(1) have "list_ex (\<lambda>t. tag_condition t row) ts"
    by (auto simp: list_ex_iff)
  with assms(5) have "where_clause query lang (Some ts) row"
    by (simp add: where_clause_def)
  with assms(4,6) show ?thesis
    by (auto simp: db_search_def split: option.splits)
qed

section \<open>The samples, evaluated\<close>

lemma lower_docker: "lower ''docker'' = ''docker''"
  by (simp add: lower_def lower_char_def)

lemma lower_upper_docker: "lower ''DOCKER'' = ''docker''"
  by code_simp

lemma lower_spaces: "lower ''  '' = ''  ''"
  by (simp add: lower_def lower_char_def)

lemma validate_tags_samples:
  "validate_tags [] = []"
  "validate_tags [''docker'', ''docker-compose''] = [''docker'', ''docker-compose'']"
  "validate_tags [''docker'', ''cleanup''] = [''docker'', ''cleanup'']"
  "validate_tags [''javascript'', ''api''] = [''javascript'', ''api'']"
  "validate_tags [quoted_tag] = [quoted_tag]"
  by (simp_all add: validate_tags_def py_strip_def py_space_def lower_def lower_char_def
      quoted_tag_def)

lemma name_samples:
  "name sample_docker = ''docker''" "name sample_compose = ''docker-compose''"
  "name sample_list = ''list''" "name sample_docgen = ''doc-gen''"
  by (simp_all add: sample_docker_def sample_compose_def sample_list_def sample_docgen_def
      new_snippet_def)

lemma lower_name_samples:
  "lower (name sample_docker) = ''docker''" "lower (name sample_compose) = ''docker-compose''"
  "lower (name sample_list) = ''list''" "lower (name sample_docgen) = ''doc-gen''"
  by (simp_all add: name_samples lower_def lower_char_def)

lemma lower_content_samples:
  "lower (content sample_list) = ''ls''" "lower (content sample_docgen) = ''docker build''"
  by (simp_all add: sample_list_def sample_docgen_def new_snippet_def lower_def lower_char_def)

lemma tags_samples:
  "tags sample_list = [''docker'', ''docker-compose'']" "tags sample_docgen = []"
  "tags sample_cleanup = [''docker'', ''cleanup'']"
  "tags sample_fetch = [''javascript'', ''api'']"
  "tags sample_quoted = [quoted_tag]"
  by (simp_all add: sample_list_def sample_docgen_def sample_cleanup_def sample_fetch_def
      sample_quoted_def new_snippet_def validate_tags_samples)

lemma updated_at_samples:
  "updated_at sample_docker = 3" "updated_at sample_compose = 2"
  "updated_at sample_list = 1" "updated_at sample_docgen = 4"
  "updated_at sample_cleanup = 2" "updated_at sample_fetch = 1"
  by (simp_all add: sample_docker_def sample_compose_def sample_list_def sample_docgen_def
      sample_cleanup_def sample_fetch_def new_snippet_def)

lemma score_docker: "calculate_score F ''docker'' sample_docker = 100"
  by (simp add: calculate_score_def lower_docker lower_name_samples)

lemma score_compose: "calculate_score F ''docker'' sample_compose = 95"
  by (simp add: calculate_score_def lower_docker lower_name_samples)

lemma candidates_docker_compose:
  "db_search within_limits [sample_compose, sample_docker] None None None =
     Inr [sample_docker, sample_compose]"
  by (simp add: db_search_no_filter updated_at_samples)

lemma name_score_list: "name_score indel_fuzz ''docker'' sample_list = 0"
  by (simp add: name_score_def lower_docker lower_name_samples indel_fuzz_def indel_ratio_def
      round_half_even_def)

lemma tag_score_list: "tag_score F ''docker'' sample_list = 140"
  by (simp add: tag_score_def tags_samples lower_def lower_char_def)

lemma content_score_list: "content_score indel_fuzz ''docker'' sample_list = 0"
  by (simp add: content_score_def lower_docker lower_content_samples indel_fuzz_def
      indel_partial_ratio_def windows_def indel_ratio_def round_half_even_def
      int_times_tenths_def)

lemma name_score_docgen: "name_score indel_fuzz ''docker'' sample_docgen = 62"
  by (simp add: name_score_def lower_docker lower_name_samples indel_fuzz_def indel_ratio_def
      round_half_even_def)

lemma tag_score_docgen: "tag_score F ''docker'' sample_docgen = 0"
  by (simp add: tag_score_def tags_samples)

lemma content_docgen:
  "py_in (lower ''docker'') (lower (content sample_docgen))"
  "py_count (lower (content sample_docgen)) (lower ''docker'') = 1"
  by (simp_all add: lower_docker lower_content_samples py_count_def)

lemma content_score_docgen: "content_score F ''docker'' sample_docgen = 25"
  by (simp add: content_score_def content_docgen)

lemma whitespace_scores_list:
  "name_score indel_fuzz ''  '' sample_list = 0"
  "tag_score indel_fuzz ''  '' sample_list = 0"
  "content_score indel_fuzz ''  '' sample_list = 0"
  by (simp_all add: name_score_def tag_score_def content_score_def lower_spaces
      lower_name_samples lower_content_samples tags_samples lower_docker indel_fuzz_def
      indel_partial_ratio_def windows_def indel_ratio_def round_half_even_def
      int_times_tenths_def)
     (simp_all add: lower_def lower_char_def indel_ratio_def round_half_even_def)

lemma whitespace_score_list: "calculate_score indel_fuzz ''  '' sample_list = 0"
  by (simp add: calculate_score_def Let_def whitespace_scores_list int_times_tenths_def
      lower_name_samples lower_spaces)

lemma json_sample_quoted:
  "json_dumps (tags sample_quoted) =
     ''['' @ [CHR 0x22] @ ''say '' @ [CHR 0x5C, CHR 0x22] @ ''hi''
       @ [CHR 0x5C, CHR 0x22, CHR 0x22] @ '']''"
  by (simp add: tags_samples quoted_tag_def json_dumps_def json_string_def
      json_escape_char_def)

lemma tag_condition_sample_quoted: "\<not> tag_condition quoted_tag sample_quoted"
  unfolding tag_condition_def json_sample_quoted
  by (simp add: quoted_tag_def sql_like_def until_nul_def like_fold_def)

lemma plain_docker_api: "list_all plain_char ''docker''" "list_all plain_char ''api''"
  by (simp_all add: plain_char_def)

lemma tag_conditions_docgen:
  "\<not> tag_condition ''docker'' sample_docgen" "\<not> tag_condition ''api'' sample_docgen"
  by (simp_all add: tag_condition_def tags_samples json_dumps_def sql_like_def until_nul_def
      like_fold_def)

lemma docker_or_api_returns_both:
  "db_search within_limits [sample_cleanup, sample_docgen, sample_fetch] None None
     (Some [''docker'', ''api'']) = Inr [sample_cleanup, sample_fetch]"
proof -
  have c: "tag_condition ''docker'' sample_cleanup"
    by (rule tag_condition_plain [OF _ plain_docker_api(1)]) (simp add: tags_samples)
  have f: "tag_condition ''api'' sample_fetch"
    by (rule tag_condition_plain [OF _ plain_docker_api(2)]) (simp add: tags_samples)
  show ?thesis
    by (simp add: db_search_def within_limits_def where_clause_def c f tag_conditions_docgen
        updated_at_samples)
qed

section \<open>The scoring function\<close>

text \<open>
  C1. The scoring function returns an integer between 0 and 100 for every query and every
  snippet, also when several tags contain the query. The code adds 70 for each such tag
  and caps the total at 100 only inside the boost step: for the query \<open>docker\<close> and a
  snippet named \<open>list\<close> with content \<open>ls\<close> and the tags \<open>docker\<close> and
  \<open>docker-compose\<close>, the name and the content share no character with the query, one
  signal holds, the boost step is skipped, and the score is 140.
\<close>

theorem two_matching_tags_score_140:
  "calculate_score indel_fuzz ''docker'' sample_list = 140"
  by (simp add: calculate_score_def Let_def name_score_list tag_score_list content_score_list
      int_times_tenths_def lower_docker lower_name_samples)

text \<open>
  C5. The claim counts, as the first signal of the boost step, whether the weighted and
  floored name score exceeds 60. The code counts whether the unweighted ratio exceeds 60:
  when the query is neither the name nor a part of it and the ratio is not negative, the
  score is the largest of the floored nine tenths of the ratio, the tag score and the
  content score, and it is raised to the floor of eleven tenths of itself, at most 100,
  when more than one of "ratio > 60", "tag score > 0", "content score > 0" holds.
\<close>

theorem boost_counts_unweighted_ratio:
  assumes "lower query \<noteq> lower (name snip)"
    and "\<not> py_in (lower query) (lower (name snip))"
    and "0 \<le> name_score F query snip"
  shows "calculate_score F query snip =
     (if 1 < (of_bool (60 < name_score F query snip) :: nat)
             + of_bool (0 < tag_score F query snip)
             + of_bool (0 < content_score F query snip)
      then min 100
             (max (name_score F query snip * 9 div 10)
                (max (tag_score F query snip) (content_score F query snip)) * 11 div 10)
      else max (name_score F query snip * 9 div 10)
             (max (tag_score F query snip) (content_score F query snip)))"
proof -
  let ?total = "max (name_score F query snip * 9 div 10)
                  (max (tag_score F query snip) (content_score F query snip))"
  have nf: "int_times_tenths (name_score F query snip) 9 = name_score F query snip * 9 div 10"
    using assms(3) by (rule int_times_tenths_nonneg)
  from assms(3) have "0 \<le> name_score F query snip * 9 div 10"
    by simp
  then have "0 \<le> ?total" by simp
  then have "int_times_tenths ?total 11 = ?total * 11 div 10"
    by (rule int_times_tenths_nonneg)
  with assms(1,2) nf show ?thesis
    by (simp add: calculate_score_def Let_def)
qed

theorem boost_counts_unweighted_ratio_witness:
  "lower ''docker'' \<noteq> lower (name sample_docgen)
   \<and> \<not> py_in (lower ''docker'') (lower (name sample_docgen))
   \<and> 0 \<le> name_score indel_fuzz ''docker'' sample_docgen
   \<and> calculate_score indel_fuzz ''docker'' sample_docgen = 60"
proof -
  have h1: "lower ''docker'' \<noteq> lower (name sample_docgen)"
    by (simp add: lower_docker lower_name_samples)
  have h2: "\<not> py_in (lower ''docker'') (lower (name sample_docgen))"
    by (simp add: lower_docker lower_name_samples)
  have h3: "0 \<le> name_score indel_fuzz ''docker'' sample_docgen"
    by (simp add: name_score_docgen)
  have "calculate_score indel_fuzz ''docker'' sample_docgen = 60"
    using boost_counts_unweighted_ratio [OF h1 h2 h3]
    by (simp add: name_score_docgen tag_score_docgen content_score_docgen)
  with h1 h2 h3 show ?thesis by blast
qed

theorem weighted_signal_counterexample:
  "calculate_score indel_fuzz ''docker'' sample_docgen = 60
   \<and> score_counting_weighted_name indel_fuzz ''docker'' sample_docgen = 55"
  by (simp add: calculate_score_def score_counting_weighted_name_def Let_def name_score_docgen
      tag_score_docgen content_score_docgen int_times_tenths_def lower_docker
      lower_name_samples)

text \<open>
  C6. Scoring a snippet against its own name, in any mix of upper and lower case, gives
  exactly 100, whatever the scorers, the tags and the content are.
\<close>

theorem exact_name_match_scores_100:
  "lower query = lower (name snip) \<Longrightarrow> calculate_score F query snip = 100"
  by (simp add: calculate_score_def)

theorem exact_name_match_scores_100_witness:
  "lower ''DOCKER'' = lower (name sample_docker)
   \<and> calculate_score indel_fuzz ''DOCKER'' sample_docker = 100"
proof -
  have h: "lower ''DOCKER'' = lower (name sample_docker)"
    by (simp add: lower_name_samples lower_upper_docker)
  from h exact_name_match_scores_100 [OF h] show ?thesis by blast
qed

text \<open>
  C10. When a non-empty query is neither the snippet's name nor a part of it (both in
  lower case) and occurs in the content in lower case, the score is at least 25; and when
  the store returns the snippet among its candidates, the snippet is among the results
  of the search without a limit.
\<close>

theorem content_substring_scores_at_least_25:
  assumes "query \<noteq> []"
    and "lower query \<noteq> lower (name snip)"
    and "\<not> py_in (lower query) (lower (name snip))"
    and "py_in (lower query) (lower (content snip))"
  shows "25 \<le> calculate_score F query snip
     \<and> (db_search E db None lang tgs = Inr cands \<and> snip \<in> set cands \<longrightarrow>
        (\<exists>rs. search E db F (Some query) lang tgs None = Inr rs
           \<and> \<lparr>snippet = snip, score = calculate_score F query snip\<rparr> \<in> set rs))"
proof -
  from assms(1) have ne: "lower query \<noteq> []" by (simp add: lower_Nil_iff)
  have c: "25 \<le> content_score F query snip"
    using ne assms(4) by (rule content_score_substring)
  let ?total = "max (int_times_tenths (name_score F query snip) 9)
                  (max (tag_score F query snip) (content_score F query snip))"
  from c have t: "25 \<le> ?total" by simp
  then have b: "25 \<le> min 100 (int_times_tenths ?total 11)" by (rule boost_keeps_25)
  have s: "25 \<le> calculate_score F query snip"
    using assms(2,3) t b by (simp add: calculate_score_def Let_def)
  have "\<exists>rs. search E db F (Some query) lang tgs None = Inr rs
        \<and> \<lparr>snippet = snip, score = calculate_score F query snip\<rparr> \<in> set rs"
    if st: "db_search E db None lang tgs = Inr cands" and m: "snip \<in> set cands"
  proof -
    have r: "search E db F (Some query) lang tgs None =
        Inr (sort_by_score (score_loop F query cands))"
      using assms(1) st by (simp add: search_def apply_limit_def)
    have "\<lparr>snippet = snip, score = calculate_score F query snip\<rparr>
        \<in> set (sort_by_score (score_loop F query cands))"
      using m s by (auto simp: set_sort_by_score score_loop_eq)
    with r show ?thesis by blast
  qed
  with s show ?thesis by blast
qed

theorem content_substring_scores_at_least_25_witness:
  "''docker'' \<noteq> []
   \<and> lower ''docker'' \<noteq> lower (name sample_docgen)
   \<and> \<not> py_in (lower ''docker'') (lower (name sample_docgen))
   \<and> py_in (lower ''docker'') (lower (content sample_docgen))
   \<and> 25 \<le> calculate_score indel_fuzz ''docker'' sample_docgen
   \<and> db_search within_limits [sample_docgen] None None None = Inr [sample_docgen]
   \<and> sample_docgen \<in> set [sample_docgen]
   \<and> (\<exists>rs. search within_limits [sample_docgen] indel_fuzz (Some ''docker'') None None None
           = Inr rs
         \<and> \<lparr>snippet = sample_docgen,
             score = calculate_score indel_fuzz ''docker'' sample_docgen\<rparr> \<in> set rs)"
proof -
  have h1: "''docker'' \<noteq> []" by simp
  have h2: "lower ''docker'' \<noteq> lower (name sample_docgen)"
    by (simp add: lower_docker lower_name_samples)
  have h3: "\<not> py_in (lower ''docker'') (lower (name sample_docgen))"
    by (simp add: lower_docker lower_name_samples)
  have h4: "py_in (lower ''docker'') (lower (content sample_docgen))"
    by (rule content_docgen)
  have st: "db_search within_limits [sample_docgen] None None None = Inr [sample_docgen]"
    by (simp add: db_search_no_filter)
  have m: "sample_docgen \<in> set [sample_docgen]" by simp
  from content_substring_scores_at_least_25 [OF h1 h2 h3 h4,
      of indel_fuzz within_limits "[sample_docgen]" None None "[sample_docgen]"]
    h1 h2 h3 h4 st m
  show ?thesis by blast
qed

section \<open>The ranking engine\<close>

text \<open>
  C2. A search with the limit 0 returns an empty list. In the code the limit is applied
  under \<open>if limit:\<close>, which is false for 0, so nothing is cut: on a store of two
  snippets the search without a query and with the limit 0 returns both.
\<close>

theorem limit_zero_returns_every_candidate:
  "search within_limits [sample_compose, sample_docker] indel_fuzz None None None (Some 0) =
     Inr [\<lparr>snippet = sample_docker, score = 100\<rparr>, \<lparr>snippet = sample_compose, score = 100\<rparr>]"
  by (simp add: search_def candidates_docker_compose apply_limit_def)

text \<open>
  C3. The claim has a search with a negative limit report an error that names the limit.
  The code checks nothing about the limit: a negative limit is the bound of the slice
  \<open>results[:limit]\<close>. The call with a negative limit fails when, and as, the same call
  without a limit fails (an error of the store, passed on); otherwise it returns the list
  that call returns, less its last \<open>-limit\<close> entries.
\<close>

theorem negative_limit_drops_last_results:
  "n < 0 \<Longrightarrow>
   search E db F query lang tgs (Some n) =
     (case search E db F query lang tgs None of
        Inl e \<Rightarrow> Inl e
      | Inr rs \<Rightarrow> Inr (take (length rs - nat (- n)) rs))"
  by (cases "db_search E db None lang tgs"; cases query)
     (simp_all add: search_def Let_def apply_limit_def py_slice_to_negative)

theorem negative_limit_drops_last_results_witness:
  "(- 1 :: int) < 0
   \<and> search within_limits [sample_compose, sample_docker] indel_fuzz (Some ''docker'') None None
       None =
       Inr [\<lparr>snippet = sample_docker, score = 100\<rparr>, \<lparr>snippet = sample_compose, score = 95\<rparr>]
   \<and> search within_limits [sample_compose, sample_docker] indel_fuzz (Some ''docker'') None None
       (Some (- 1)) = Inr [\<lparr>snippet = sample_docker, score = 100\<rparr>]"
proof -
  have h: "(- 1 :: int) < 0" by simp
  have u: "search within_limits [sample_compose, sample_docker] indel_fuzz (Some ''docker'')
      None None None =
      Inr [\<lparr>snippet = sample_docker, score = 100\<rparr>, \<lparr>snippet = sample_compose, score = 95\<rparr>]"
    by (simp add: search_def candidates_docker_compose apply_limit_def score_docker
        score_compose sort_by_score_def)
  from negative_limit_drops_last_results [OF h,
      of within_limits "[sample_compose, sample_docker]" indel_fuzz "Some ''docker''" None None]
  have "search within_limits [sample_compose, sample_docker] indel_fuzz (Some ''docker'') None
      None (Some (- 1)) = Inr [\<lparr>snippet = sample_docker, score = 100\<rparr>]"
    by (simp add: u)
  with h u show ?thesis by blast
qed

theorem negative_limit_counterexample:
  "search within_limits [sample_compose, sample_docker] indel_fuzz None None None (Some (- 1)) =
     Inr [\<lparr>snippet = sample_docker, score = 100\<rparr>]
   \<and> search within_limits [sample_compose, sample_docker] indel_fuzz None None None
       (Some (- 1)) \<noteq> Inl (InvalidArgument ''limit'')"
  by (simp add: search_def candidates_docker_compose apply_limit_def py_slice_to_def)

text \<open>
  C4. The claim has the search trim the query, so that a query of spaces counts as no
  query. The code uses the query as it is given. Let the store return its candidates,
  and let there be no limit or a positive one. Without a query, or with the empty one,
  every candidate is returned with the score 100 in the order of the store. Every other
  query, one of spaces included, is scored untrimmed: the results are the candidates
  whose score for the query as given is positive, each with that score, in descending
  order of score, those of equal score in the order of the store. In both cases the
  whole list is returned when there is no limit, and its first \<open>limit\<close> entries when the
  limit is positive.
\<close>

theorem query_is_used_untrimmed:
  assumes "db_search E db None lang tgs = Inr cands"
    and "case limit of None \<Rightarrow> True | Some n \<Rightarrow> 0 < n"
  shows
    "search E db F None lang tgs limit =
       Inr (case limit of
              None \<Rightarrow> map (\<lambda>s. \<lparr>snippet = s, score = 100\<rparr>) cands
            | Some n \<Rightarrow> take (nat n) (map (\<lambda>s. \<lparr>snippet = s, score = 100\<rparr>) cands))
     \<and> search E db F (Some []) lang tgs limit =
       Inr (case limit of
              None \<Rightarrow> map (\<lambda>s. \<lparr>snippet = s, score = 100\<rparr>) cands
            | Some n \<Rightarrow> take (nat n) (map (\<lambda>s. \<lparr>snippet = s, score = 100\<rparr>) cands))
     \<and> (query \<noteq> [] \<longrightarrow>
        (\<exists>ranked.
           search E db F (Some query) lang tgs limit =
             Inr (case limit of None \<Rightarrow> ranked | Some n \<Rightarrow> take (nat n) ranked)
           \<and> sorted_wrt (\<lambda>a b. score b \<le> score a) ranked
           \<and> (\<forall>k. filter (\<lambda>r. score r = k) ranked =
                 map (\<lambda>s. \<lparr>snippet = s, score = calculate_score F query s\<rparr>)
                   (filter
                     (\<lambda>s. 0 < calculate_score F query s \<and> calculate_score F query s = k)
                     cands))))"
proof -
  have cut: "apply_limit limit xs = (case limit of None \<Rightarrow> xs | Some n \<Rightarrow> take (nat n) xs)"
    for xs :: "SearchResult list"
    using assms(2) by (cases limit) (simp_all add: apply_limit_none apply_limit_positive)
  have a: "search E db F None lang tgs limit =
      Inr (apply_limit limit (map (\<lambda>s. \<lparr>snippet = s, score = 100\<rparr>) cands))"
    using assms(1) by (rule search_no_query(1))
  have b: "search E db F (Some []) lang tgs limit =
      Inr (apply_limit limit (map (\<lambda>s. \<lparr>snippet = s, score = 100\<rparr>) cands))"
    using assms(1) by (rule search_no_query(2))
  have c: "\<exists>ranked.
      search E db F (Some query) lang tgs limit =
        Inr (case limit of None \<Rightarrow> ranked | Some n \<Rightarrow> take (nat n) ranked)
      \<and> sorted_wrt (\<lambda>a b. score b \<le> score a) ranked
      \<and> (\<forall>k. filter (\<lambda>r. score r = k) ranked =
            map (\<lambda>s. \<lparr>snippet = s, score = calculate_score F query s\<rparr>)
              (filter (\<lambda>s. 0 < calculate_score F query s \<and> calculate_score F query s = k)
                cands))"
    if "query \<noteq> []"
    using ranked_search [OF assms(1) that, of F limit] by (simp only: cut)
  from a b c show ?thesis by (simp only: cut) blast
qed

theorem query_is_used_untrimmed_witness:
  "db_search within_limits [sample_docgen, sample_list] None None None =
     Inr [sample_docgen, sample_list]
   \<and> (0 :: int) < 5
   \<and> ''  '' \<noteq> []
   \<and> (\<exists>ranked.
        search within_limits [sample_docgen, sample_list] indel_fuzz (Some ''  '') None None
          (Some 5) = Inr (take (nat 5) ranked)
        \<and> sorted_wrt (\<lambda>a b. score b \<le> score a) ranked
        \<and> (\<forall>k. filter (\<lambda>r. score r = k) ranked =
              map (\<lambda>s. \<lparr>snippet = s, score = calculate_score indel_fuzz ''  '' s\<rparr>)
                (filter
                  (\<lambda>s. 0 < calculate_score indel_fuzz ''  '' s
                     \<and> calculate_score indel_fuzz ''  '' s = k)
                  [sample_docgen, sample_list])))"
proof -
  have st: "db_search within_limits [sample_docgen, sample_list] None None None =
      Inr [sample_docgen, sample_list]"
    by (simp add: db_search_no_filter updated_at_samples)
  have lim: "case Some (5 :: int) of None \<Rightarrow> True | Some n \<Rightarrow> 0 < n" by simp
  have ne: "''  '' \<noteq> []" by simp
  from query_is_used_untrimmed [OF st lim, of indel_fuzz "''  ''"] ne st
  show ?thesis by simp
qed

theorem whitespace_query_counterexample:
  "search within_limits [sample_list] indel_fuzz (Some ''  '') None None None = Inr []
   \<and> search within_limits [sample_list] indel_fuzz None None None None =
       Inr [\<lparr>snippet = sample_list, score = 100\<rparr>]"
  by (simp add: search_def db_search_no_filter apply_limit_def whitespace_score_list
      sort_by_score_def)

text \<open>
  C7. For a non-empty query the search scores every candidate, drops those with a score
  of 0 or less, sorts the rest by descending score, and cuts the list to the limit when a
  limit is given. With the limit 0 the code cuts nothing (\<open>if limit:\<close>): for the query
  \<open>docker\<close> on a store of two snippets it returns both, ranked.
\<close>

theorem limit_zero_keeps_ranked_results:
  "search within_limits [sample_compose, sample_docker] indel_fuzz (Some ''docker'') None None
     (Some 0) =
     Inr [\<lparr>snippet = sample_docker, score = 100\<rparr>, \<lparr>snippet = sample_compose, score = 95\<rparr>]"
  by (simp add: search_def candidates_docker_compose apply_limit_def score_docker score_compose
      sort_by_score_def)

text \<open>
  C8. A search with the empty query returns what the search without a query returns, for
  every store, language filter, tag filter and limit.
\<close>

theorem empty_query_same_as_no_query:
  "search E db F (Some []) lang tgs limit = search E db F None lang tgs limit"
  by (cases "db_search E db None lang tgs") (simp_all add: search_def)

section \<open>The store\<close>

text \<open>
  C9. The tag filter of the store has OR semantics: a snippet qualifies when it has a tag
  in common with the filter. The code looks for the quoted tag in the JSON text of the
  row's tags, where \<open>json.dumps\<close> has escaped the double quotes: the snippet whose only
  tag is \<open>say "hi"\<close> is in the store, and the search for that very tag returns nothing.
\<close>

theorem tag_with_quotes_not_found_by_itself:
  "quoted_tag \<in> set [quoted_tag]
   \<and> quoted_tag \<in> set (tags sample_quoted)
   \<and> db_search within_limits [sample_quoted] None None None = Inr [sample_quoted]
   \<and> db_search within_limits [sample_quoted] None None (Some [quoted_tag]) = Inr []"
  by (simp add: db_search_def within_limits_def where_clause_def tag_condition_sample_quoted
      tags_samples)

end
